theory Spec2Isabelle
  imports Complex_Main
begin

section \<open>Python strings and slices\<close>

text \<open>
  A Python \<open>str\<close> is a sequence of code points. The development models the code points
  below 256 (the Latin-1 range, which contains every character of the stopword and
  synonym tables of \<open>chat_pdfs.py\<close>): one \<^typ>\<open>char\<close> is one code point, read with
  \<^term>\<open>of_char\<close>. Scores are Python floats; they are modelled as exact reals.
\<close>

definition es_espacio :: "char \<Rightarrow> bool" where
  \<comment> \<open>\<open>c.isspace()\<close> on the modelled range: TAB..CR, FS..US, space, NEL, NBSP.\<close>
  "es_espacio c = (let n = (of_char c :: nat) in
     (9 \<le> n \<and> n \<le> 13) \<or> (28 \<le> n \<and> n \<le> 32) \<or> n = 133 \<or> n = 160)"

definition strip_con :: "(char \<Rightarrow> bool) \<Rightarrow> string \<Rightarrow> string" where
  \<comment> \<open>\<open>s.strip(chars)\<close>: drop the characters of the set from both ends.\<close>
  "strip_con P s = rev (dropWhile P (rev (dropWhile P s)))"

definition strip :: "string \<Rightarrow> string" where
  \<comment> \<open>\<open>s.strip()\<close>\<close>
  "strip s = strip_con es_espacio s"

definition py_slice :: "'a list \<Rightarrow> int \<Rightarrow> int \<Rightarrow> 'a list" where
  \<comment> \<open>\<open>xs[i:j]\<close>: a negative index counts from the end, both are clipped to the length.\<close>
  "py_slice xs i j =
     (let n = int (length xs);
          a = (if i < 0 then max (i + n) 0 else min i n);
          b = (if j < 0 then max (j + n) 0 else min j n)
      in take (nat b - nat a) (drop (nat a) xs))"

section \<open>Configuration\<close>

definition MIN_CHUNK_LENGTH :: int where "MIN_CHUNK_LENGTH = 100"

section \<open>Chunker: \<open>dividir_en_chunks\<close>\<close>

text \<open>
  The function has no \<open>raise\<close> and calls nothing that raises (slicing clips, \<open>strip\<close> and
  \<open>min\<close> are total), so each call either returns a list or runs forever. The \<open>while\<close> loop
  is a partial function into \<open>option\<close>: \<open>None\<close> is a call that never returns.
\<close>

definition fin_de :: "int \<Rightarrow> int \<Rightarrow> int \<Rightarrow> int" where
  \<comment> \<open>\<open>fin = min(inicio + chunk_size, texto_len)\<close>\<close>
  "fin_de inicio chunk_size texto_len = min (inicio + chunk_size) texto_len"

definition agregar_chunk :: "string \<Rightarrow> string list \<Rightarrow> string list" where
  \<comment> \<open>\<open>if len(chunk.strip()) >= MIN_CHUNK_LENGTH: chunks.append(chunk.strip())\<close>\<close>
  "agregar_chunk chunk chunks =
     (if int (length (strip chunk)) \<ge> MIN_CHUNK_LENGTH then chunks @ [strip chunk] else chunks)"

partial_function (option) bucle_chunks ::
  "string \<Rightarrow> int \<Rightarrow> int \<Rightarrow> int \<Rightarrow> string list \<Rightarrow> string list option" where
  "bucle_chunks texto chunk_size overlap inicio chunks =
     (if inicio < int (length texto) then
        (let fin = fin_de inicio chunk_size (int (length texto));
             chunks' = agregar_chunk (py_slice texto inicio fin) chunks
         in if fin \<ge> int (length texto) then Some chunks'
            else bucle_chunks texto chunk_size overlap (fin - overlap) chunks')
      else Some chunks)"

definition dividir_en_chunks :: "string \<Rightarrow> int \<Rightarrow> int \<Rightarrow> string list option" where
  "dividir_en_chunks texto chunk_size overlap = bucle_chunks texto chunk_size overlap 0 []"



section \<open>More of Python's \<open>str\<close>\<close>

definition a_minuscula :: "char \<Rightarrow> char" where
  \<comment> \<open>\<open>c.lower()\<close> on the modelled range: A..Z and the capital letters 0xC0..0xDE but 0xD7.\<close>
  "a_minuscula c = (let n = (of_char c :: nat) in
     if (65 \<le> n \<and> n \<le> 90) \<or> (192 \<le> n \<and> n \<le> 222 \<and> n \<noteq> 215) then char_of (n + 32) else c)"

definition lower :: "string \<Rightarrow> string" where
  "lower s = map a_minuscula s"

definition es_mayuscula :: "char \<Rightarrow> bool" where
  \<comment> \<open>\<open>c.isupper()\<close>\<close>
  "es_mayuscula c = (let n = (of_char c :: nat) in
     (65 \<le> n \<and> n \<le> 90) \<or> (192 \<le> n \<and> n \<le> 222 \<and> n \<noteq> 215))"

definition es_digito :: "char \<Rightarrow> bool" where
  \<comment> \<open>\<open>c.isdigit()\<close>: 0..9 and the superscripts 0xB2, 0xB3, 0xB9\<close>
  "es_digito c = (let n = (of_char c :: nat) in
     (48 \<le> n \<and> n \<le> 57) \<or> n = 178 \<or> n = 179 \<or> n = 185)"

fun split_desde :: "string \<Rightarrow> string \<Rightarrow> string list" where
  "split_desde w [] = (if w = [] then [] else [w])"
| "split_desde w (c # cs) =
     (if es_espacio c then (if w = [] then split_desde [] cs else w # split_desde [] cs)
      else split_desde (w @ [c]) cs)"

definition split :: "string \<Rightarrow> string list" where
  \<comment> \<open>\<open>s.split()\<close>: the maximal runs of non-whitespace characters\<close>
  "split s = split_desde [] s"


fun digitos :: "nat \<Rightarrow> string" where
  "digitos n = (if n < 10 then [char_of (48 + n)]
                else digitos (n div 10) @ [char_of (48 + n mod 10)])"

declare digitos.simps [simp del]

definition str_int :: "int \<Rightarrow> string" where
  \<comment> \<open>\<open>str(i)\<close>, which an f-string applies to an \<open>int\<close>\<close>
  "str_int i = (if i < 0 then CHR ''-'' # digitos (nat (- i)) else digitos (nat i))"


section \<open>Fragment metadata and identifiers\<close>

record chunk_meta =
  source :: string
  page :: int
  chunk :: "int option"
  total_chunks_in_page :: "int option"

definition obtener_chunk :: "chunk_meta \<Rightarrow> int" where
  \<comment> \<open>\<open>metadata.get('chunk', 0)\<close>\<close>
  "obtener_chunk m = (case chunk m of None \<Rightarrow> 0 | Some c \<Rightarrow> c)"

definition id_indexar :: "string \<Rightarrow> nat \<Rightarrow> nat \<Rightarrow> string" where
  \<comment> \<open>\<open>indexar_documentos\<close>: \<open>id_doc = f"{archivo}_pag{i}_chunk{chunk_idx}"\<close>\<close>
  "id_indexar archivo i chunk_idx =
     archivo @ ''_pag'' @ str_int (int i) @ ''_chunk'' @ str_int (int chunk_idx)"

definition metadata_indexar :: "string \<Rightarrow> nat \<Rightarrow> nat \<Rightarrow> nat \<Rightarrow> chunk_meta" where
  \<comment> \<open>the metadata \<open>indexar_documentos\<close> stores with the chunk; the last argument is \<open>len(chunks)\<close>\<close>
  "metadata_indexar archivo i chunk_idx n_chunks =
     \<lparr>source = archivo, page = int i, chunk = Some (int chunk_idx),
      total_chunks_in_page = Some (int n_chunks)\<rparr>"

definition id_semantico :: "chunk_meta \<Rightarrow> string" where
  \<comment> \<open>\<open>realizar_busqueda_hibrida\<close>, semantic results\<close>
  "id_semantico m =
     source m @ ''_pag'' @ str_int (page m) @ ''_chunk'' @ str_int (obtener_chunk m)"

definition id_keyword :: "chunk_meta \<Rightarrow> string" where
  \<comment> \<open>\<open>busqueda_por_keywords\<close>\<close>
  "id_keyword m =
     source m @ ''_pag'' @ str_int (page m) @ ''_chunk'' @ str_int (obtener_chunk m)"

definition id_vecino :: "chunk_meta \<Rightarrow> string" where
  \<comment> \<open>\<open>ejecutar_chat\<close>, the id of a fetched neighbour\<close>
  "id_vecino m =
     source m @ ''_pag'' @ str_int (page m) @ ''_chunk'' @ str_int (obtener_chunk m)"

definition expandir_con_chunks_adyacentes :: "string \<Rightarrow> chunk_meta \<Rightarrow> int \<Rightarrow> string list" where
  "expandir_con_chunks_adyacentes chunk_id m n_vecinos =
     (let archivo = source m;
          pagina = page m;
          chunk_num = obtener_chunk m;
          anteriores = concat (map (\<lambda>i.
              if chunk_num - i \<ge> 0
              then [archivo @ ''_pag'' @ str_int pagina @ ''_chunk'' @ str_int (chunk_num - i)]
              else []) [1..n_vecinos]);
          siguientes = (case total_chunks_in_page m of
              None \<Rightarrow> []
            | Some n_total \<Rightarrow> concat (map (\<lambda>i.
                if chunk_num + i < n_total
                then [archivo @ ''_pag'' @ str_int pagina @ ''_chunk'' @ str_int (chunk_num + i)]
                else []) [1..n_vecinos]))
      in anteriores @ siguientes)"


section \<open>Keyword extraction\<close>

definition PUNTUACION :: string where
  \<comment> \<open>the argument of \<open>strip\<close> in \<open>extraer_keywords\<close>: inverted question mark (0xBF),
      \<open>?.,;:()[]{}\<close>, double quote (0x22), single quote (0x27) and hyphen\<close>
  "PUNTUACION = CHR 0xBF # ''?.,;:()[]{}'' @ [CHR 0x22, CHR 0x27, CHR ''-'']"

definition strip_puntuacion :: "string \<Rightarrow> string" where
  "strip_puntuacion s = strip_con (\<lambda>c. c \<in> set PUNTUACION) s"

definition STOPWORDS :: "string list" where
  "STOPWORDS =
    [''el'', ''la'', ''de'', ''en'', ''y'', ''a'', ''los'', ''las'', ''un'', ''una'', ''por'', ''para'',
     ''con'', ''del'', ''que'', ''es'', ''son'', ''se'', ''al'', ''como'', ''m'' @ CHR 0xE1 # ''s'', ''su'', ''me'',
     ''est'' @ [CHR 0xE1], ''hay'', ''tiene'', ''puede'', ''ser'', ''sobre'', ''entre'',
     ''tambi'' @ CHR 0xE9 # ''n'',
     ''podr'' @ CHR 0xED # ''as'', ''decirme'', ''cu'' @ CHR 0xE1 # ''les'', ''c'' @ CHR 0xF3 # ''mo'',
     ''qu'' @ [CHR 0xE9], ''indica'', ''indicar'', ''puedes'',
     ''tres'', ''dos'', ''estas'', ''estos'', ''principales'', ''llaman'', ''partes'',
     ''the'', ''in'', ''and'', ''of'', ''to'', ''a'', ''is'', ''for'', ''on'', ''with'', ''as'', ''are'',
     ''this'', ''that'', ''it'', ''be'', ''or'', ''an'', ''by'', ''from'', ''at'', ''which'']"

definition TERMINOS_EXPANSION :: "(string \<times> string list) list" where
  "TERMINOS_EXPANSION =
    [(''transformer'', [''encoder'', ''decoder'', ''attention'', ''self-attention'', ''multi-head'']),
     (''atenci'' @ CHR 0xF3 # ''n'',
        [''attention'', ''query'', ''key'', ''value'', ''QKV'', ''self-attention'']),
     (''attention'', [''query'', ''key'', ''value'', ''QKV'', ''softmax'', ''scaled'']),
     (''self-attention'', [''query'', ''key'', ''value'', ''auto-atenci'' @ CHR 0xF3 # ''n'']),
     (''auto-atenci'' @ CHR 0xF3 # ''n'', [''query'', ''key'', ''value'', ''self-attention'']),
     (''arquitectura'', [''encoder'', ''decoder'', ''capas'', ''layers'', ''bloques'']),
     (''vectores'', [''query'', ''key'', ''value'', ''embedding'', ''proyecci'' @ CHR 0xF3 # ''n'']),
     (''proyecta'', [''query'', ''key'', ''value'', ''matrices'', ''proyecci'' @ CHR 0xF3 # ''n'']),
     (''encoder'', [''codificador'', ''encoding'', ''entrada'']),
     (''decoder'', [''decodificador'', ''decoding'', ''salida'']),
     (''llm'', [''modelo'', ''language'', ''model'', ''gpt'', ''transformer'']),
     (''embedding'', [''vector'', ''representaci'' @ CHR 0xF3 # ''n'', ''vectorial''])]"

definition palabras_filtradas :: "string \<Rightarrow> string list" where
  \<comment> \<open>the first comprehension of \<open>extraer_keywords\<close>: the stripped token keeps its case\<close>
  "palabras_filtradas texto =
     [strip_puntuacion p. p \<leftarrow> split texto,
        length p > 3 \<and> strip_puntuacion (lower p) \<notin> set STOPWORDS]"

definition terminos_tecnicos_de :: "string \<Rightarrow> string list" where
  \<comment> \<open>the second comprehension: tokens with an upper-case letter, a digit or a hyphen\<close>
  "terminos_tecnicos_de texto =
     [strip_puntuacion palabra. palabra \<leftarrow> split texto,
        list_ex es_mayuscula palabra \<or> list_ex es_digito palabra \<or> CHR ''-'' \<in> set palabra]"

definition expansion_de :: "string \<Rightarrow> string list" where
  \<comment> \<open>\<open>TERMINOS_EXPANSION[kw_lower]\<close> when \<open>kw_lower in TERMINOS_EXPANSION\<close>, nothing otherwise\<close>
  "expansion_de kw = (case map_of TERMINOS_EXPANSION (lower kw) of None \<Rightarrow> [] | Some ts \<Rightarrow> ts)"

definition extraer_keywords :: "string \<Rightarrow> string list" where
  \<comment> \<open>\<open>list(set(xs))\<close> is modelled by \<open>remdups xs\<close>: Python leaves the order of the result
      unspecified, the model fixes one.\<close>
  "extraer_keywords texto =
     (let keywords = remdups (palabras_filtradas texto @ map lower (terminos_tecnicos_de texto));
          keywords_expandidas = keywords @ concat (map expansion_de keywords)
      in remdups keywords_expandidas)"


section \<open>The store and the external functions\<close>

text \<open>
  A hit of \<open>collection.query\<close> is the triple \<open>(doc, distancia, metadata)\<close> that the source
  builds with \<open>zip\<close>. The collaborators outside the repository are fields of an environment:
  a call that can raise inside a \<open>try\<close> returns \<open>None\<close> for the exception.
\<close>

type_synonym hit = "string \<times> real \<times> chunk_meta"

record entorno =
  consulta_semantica :: "string \<Rightarrow> hit list"
    \<comment> \<open>\<open>ollama.embeddings\<close> of the query, then \<open>collection.query(query_embeddings=...)\<close>\<close>
  consulta_contiene :: "string \<Rightarrow> int \<Rightarrow> hit list option"
    \<comment> \<open>\<open>collection.query(query_texts=[kw], n_results=n, where_document={"$contains": kw})\<close>\<close>
  obtener_ids :: "string list \<Rightarrow> (string \<times> chunk_meta) list option"
    \<comment> \<open>\<open>collection.get(ids=...)\<close>, documents zipped with metadatas\<close>
  contar :: nat
    \<comment> \<open>\<open>collection.count()\<close>\<close>
  obtener_lote :: "nat \<Rightarrow> (string \<times> chunk_meta \<times> string) list option"
    \<comment> \<open>\<open>collection.get(limit=100, offset=...)\<close>: documents, metadatas and ids zipped\<close>
  coincide :: "string \<Rightarrow> string \<Rightarrow> bool"
    \<comment> \<open>\<open>re.search(r'\b' + re.escape(t) + r'\b', d)\<close> for a term \<open>t\<close> and a document \<open>d\<close>\<close>
  upper :: "string \<Rightarrow> string"
  capitalize :: "string \<Rightarrow> string"
  title :: "string \<Rightarrow> string"
    \<comment> \<open>\<open>str.upper\<close>, \<open>str.capitalize\<close>, \<open>str.title\<close>: their results can leave the modelled range\<close>

definition N_RESULTADOS_KEYWORD :: int where "N_RESULTADOS_KEYWORD = 20"

section \<open>Keyword search: \<open>busqueda_por_keywords\<close>\<close>

record resultado_keyword =
  kw_doc :: string
  kw_metadata :: chunk_meta
  kw_distancia :: real
  keyword_match :: string
  kw_id :: string

definition variantes :: "entorno \<Rightarrow> string \<Rightarrow> string list" where
  \<comment> \<open>the set literal of the five case variants, in one fixed order\<close>
  "variantes env keyword_base =
     remdups [keyword_base, lower keyword_base, upper env keyword_base,
              capitalize env keyword_base, title env keyword_base]"

definition buscar_variante ::
  "entorno \<Rightarrow> int \<Rightarrow> string \<Rightarrow> string \<Rightarrow> resultado_keyword list \<times> string list" where
  \<comment> \<open>one iteration of the inner loop: the hits it appends and the store queries it issues\<close>
  "buscar_variante env n_results keyword_base keyword =
     (if length keyword < 3 then ([], [])
      else (case consulta_contiene env keyword n_results of
              None \<Rightarrow> ([], [keyword])
            | Some hits \<Rightarrow>
                (map (\<lambda>(d, dst, m).
                   \<lparr>kw_doc = d, kw_metadata = m, kw_distancia = dst,
                    keyword_match = keyword_base, kw_id = id_keyword m\<rparr>) hits,
                 [keyword])))"

definition juntar :: "('a list \<times> 'b list) list \<Rightarrow> 'a list \<times> 'b list" where
  "juntar ps = (concat (map fst ps), concat (map snd ps))"

definition busqueda_por_keywords ::
  "entorno \<Rightarrow> string \<Rightarrow> int \<Rightarrow> resultado_keyword list \<times> string list" where
  \<comment> \<open>returns \<open>resultados_keyword\<close> and, as the trace of the effect, the keywords sent to
      \<open>collection.query\<close>, in order\<close>
  "busqueda_por_keywords env pregunta n_results =
     (let keywords = extraer_keywords pregunta in
      if keywords = [] then ([], [])
      else juntar (concat (map (\<lambda>keyword_base.
             map (buscar_variante env n_results keyword_base) (variantes env keyword_base))
             (take 12 keywords))))"

section \<open>Exhaustive scan: \<open>busqueda_exhaustiva_texto\<close>\<close>

record resultado_exhaustivo =
  ex_doc :: string
  ex_metadata :: chunk_meta
  ex_id :: string
  ex_matches :: "string list"
  num_matches :: nat



section \<open>Hybrid search: \<open>realizar_busqueda_hibrida\<close>\<close>

datatype distancia = Finita real | Infinita

record fragmento =
  doc :: string
  metadata :: chunk_meta
  distancia :: distancia
  id_fragmento :: string
  score_semantic :: real
  score_keyword :: real
  matches :: "string list"
  query_matches :: "nat list"
  score_final :: "real option"

text \<open>
  \<open>all_semantic_results\<close> and \<open>fragmentos_data\<close> are dictionaries from the fragment id to
  the fragment; a Python dictionary keeps its keys in insertion order, which the final
  stable sort makes visible, so the model is an association list. \<open>score_final\<close> is
  \<open>None\<close> while the key is absent from the inner dictionary.
\<close>

type_synonym tabla = "(string \<times> fragmento) list"

definition tiene :: "string \<Rightarrow> tabla \<Rightarrow> bool" where
  \<comment> \<open>\<open>chunk_id in d\<close>\<close>
  "tiene k t = (k \<in> fst ` set t)"

definition modificar :: "string \<Rightarrow> (fragmento \<Rightarrow> fragmento) \<Rightarrow> tabla \<Rightarrow> tabla" where
  \<comment> \<open>an in-place update of \<open>d[k]\<close>\<close>
  "modificar k g t = map (\<lambda>(k', v). if k' = k then (k', g v) else (k', v)) t"




definition registrar_semantico :: "nat \<Rightarrow> nat \<Rightarrow> hit \<Rightarrow> tabla \<Rightarrow> tabla" where
  \<comment> \<open>the body of the loop over one variant's results; \<open>idx\<close> is the 1-based rank\<close>
  "registrar_semantico q_idx idx h t =
     (case h of (d, dst, m) \<Rightarrow>
        (let chunk_id = id_semantico m;
             t' = (if tiene chunk_id t then t
                   else t @ [(chunk_id,
                     \<lparr>doc = d, metadata = m, distancia = Finita dst, id_fragmento = chunk_id,
                      score_semantic = 0, score_keyword = 0, matches = [],
                      query_matches = [], score_final = None\<rparr>)])
         in modificar chunk_id
              (\<lambda>f. f\<lparr>score_semantic := score_semantic f + 1 / (real idx + 60),
                     query_matches := query_matches f @ [q_idx + 1]\<rparr>) t'))"

definition busqueda_semantica :: "(string \<Rightarrow> hit list) \<Rightarrow> string list \<Rightarrow> tabla" where
  "busqueda_semantica consulta queries =
     fold (\<lambda>(q_idx, query).
             fold (\<lambda>(idx, h). registrar_semantico q_idx idx h) (enumerate 1 (consulta query)))
          (enumerate 0 queries) []"

definition fusionar_keyword :: "nat \<Rightarrow> resultado_keyword \<Rightarrow> tabla \<Rightarrow> tabla" where
  "fusionar_keyword idx result t =
     (let chunk_id = kw_id result in
      if tiene chunk_id t
      then modificar chunk_id
             (\<lambda>f. f\<lparr>score_keyword := score_keyword f + 1 / (real idx + 60),
                    matches := matches f @ [keyword_match result]\<rparr>) t
      else t @ [(chunk_id,
             \<lparr>doc = kw_doc result, metadata = kw_metadata result,
              distancia = Finita (kw_distancia result), id_fragmento = chunk_id,
              score_semantic = 0, score_keyword = 1 / (real idx + 60),
              matches = [keyword_match result], query_matches = [], score_final = None\<rparr>)])"

definition fusionar_keywords :: "resultado_keyword list \<Rightarrow> tabla \<Rightarrow> tabla" where
  "fusionar_keywords results_keyword t =
     fold (\<lambda>(idx, result). fusionar_keyword idx result) (enumerate 1 results_keyword) t"

definition puntuacion :: "fragmento \<Rightarrow> real" where
  \<comment> \<open>\<open>frag['score_semantic'] * 0.6 + frag['score_keyword'] * 0.4\<close>\<close>
  "puntuacion f = score_semantic f * (6 / 10) + score_keyword f * (4 / 10)"

definition calcular_score_final :: "tabla \<Rightarrow> tabla" where
  "calcular_score_final t = map (\<lambda>(k, f). (k, f\<lparr>score_final := Some (puntuacion f)\<rparr>)) t"

definition fusionar_exhaustivo :: "resultado_exhaustivo \<Rightarrow> tabla \<Rightarrow> tabla" where
  "fusionar_exhaustivo result t =
     (let chunk_id = ex_id result in
      if tiene chunk_id t
      then modificar chunk_id
             (\<lambda>f. f\<lparr>score_keyword := score_keyword f + (5 / 10) * real (num_matches result),
                    matches := matches f @ ex_matches result\<rparr>) t
      else t @ [(chunk_id,
             \<lparr>doc = ex_doc result, metadata = ex_metadata result,
              distancia = Infinita, id_fragmento = chunk_id,
              score_semantic = 0, score_keyword = (5 / 10) * real (num_matches result),
              matches = ex_matches result, query_matches = [], score_final = None\<rparr>)])"

definition fusionar_exhaustivos :: "resultado_exhaustivo list \<Rightarrow> tabla \<Rightarrow> tabla" where
  "fusionar_exhaustivos resultados_exhaustivos t = fold fusionar_exhaustivo resultados_exhaustivos t"

definition leer_score_final :: "fragmento \<Rightarrow> real" where
  \<comment> \<open>\<open>x['score_final']\<close>; the key is present in every fragment that is read, see
      \<open>score_final_presente\<close>, so the \<open>KeyError\<close> of the \<open>None\<close> case never happens\<close>
  "leer_score_final f = (case score_final f of Some s \<Rightarrow> s | None \<Rightarrow> 0)"



section \<open>One question of the chat loop: \<open>ejecutar_chat\<close>\<close>






definition meta_ejemplo :: chunk_meta where
  "meta_ejemplo = metadata_indexar ''spec.pdf'' 0 1 3"

definition entorno_vacio :: entorno where
  \<comment> \<open>an empty store\<close>
  "entorno_vacio =
     \<lparr>consulta_semantica = (\<lambda>_. []), consulta_contiene = (\<lambda>_ _. Some []),
      obtener_ids = (\<lambda>_. Some []), contar = 0, obtener_lote = (\<lambda>_. Some []),
      coincide = (\<lambda>_ _. False), upper = (\<lambda>s. s), capitalize = (\<lambda>s. s), title = (\<lambda>s. s)\<rparr>"

definition entorno_semantico :: entorno where
  \<comment> \<open>a store whose semantic query returns one fragment and whose keyword query returns none\<close>
  "entorno_semantico =
     entorno_vacio\<lparr>consulta_semantica := (\<lambda>_. [(''texto'', 1 / 2, meta_ejemplo)])\<rparr>"

definition entorno_keyword :: entorno where
  \<comment> \<open>a store whose keyword query returns the same fragment twice as well\<close>
  "entorno_keyword =
     entorno_semantico\<lparr>consulta_contiene :=
        (\<lambda>_ _. Some [(''texto'', 1 / 2, meta_ejemplo), (''texto'', 1 / 2, meta_ejemplo)])\<rparr>"


section \<open>Observations and examples used in the statements\<close>

definition sem_de :: "tabla \<Rightarrow> string \<Rightarrow> real" where
  \<comment> \<open>the \<open>score_semantic\<close> stored under an id, 0 when the id is absent\<close>
  "sem_de t cid = (case map_of t cid of None \<Rightarrow> 0 | Some f \<Rightarrow> score_semantic f)"

definition hit_keyword_ejemplo :: resultado_keyword where
  "hit_keyword_ejemplo =
     \<lparr>kw_doc = ''texto'', kw_metadata = meta_ejemplo, kw_distancia = 1 / 2,
      keyword_match = ''hola'', kw_id = ''spec.pdf_pag0_chunk1''\<rparr>"

definition hit_exhaustivo_ejemplo :: resultado_exhaustivo where
  "hit_exhaustivo_ejemplo =
     \<lparr>ex_doc = ''texto'', ex_metadata = meta_ejemplo, ex_id = ''spec.pdf_pag0_chunk1'',
      ex_matches = [''query'', ''key''], num_matches = 2\<rparr>"


section \<open>Properties of the chunker\<close>





lemma py_slice_todo: "py_slice xs 0 (int (length xs)) = xs"
  by (simp add: py_slice_def)



subsection \<open>Termination when the overlap is smaller than the chunk size\<close>

lemma bucle_chunks_termina:
  "overlap < chunk_size \<Longrightarrow>
   \<exists>ys. bucle_chunks texto chunk_size overlap inicio chunks = Some ys"
proof (induction "nat (int (length texto) - inicio)" arbitrary: inicio chunks rule: less_induct)
  case less
  show ?case
  proof (cases "inicio < int (length texto)")
    case False
    then show ?thesis by (subst bucle_chunks.simps) simp
  next
    case True
    let ?fin = "fin_de inicio chunk_size (int (length texto))"
    show ?thesis
    proof (cases "int (length texto) \<le> ?fin")
      case True
      with \<open>inicio < int (length texto)\<close> show ?thesis
        by (subst bucle_chunks.simps) (simp add: Let_def)
    next
      case False
      then have fin: "?fin = inicio + chunk_size"
        by (simp add: fin_de_def min_def split: if_splits)
      have "nat (int (length texto) - (?fin - overlap)) < nat (int (length texto) - inicio)"
        using fin less.prems True by simp
      from less.hyps[OF this less.prems]
      obtain ys where "bucle_chunks texto chunk_size overlap (?fin - overlap)
           (agregar_chunk (py_slice texto inicio ?fin) chunks) = Some ys" by blast
      with True False show ?thesis
        by (subst bucle_chunks.simps) (simp add: Let_def)
    qed
  qed
qed

lemma avance_estricto:
  "overlap < chunk_size \<Longrightarrow> fin_de inicio chunk_size texto_len < texto_len \<Longrightarrow>
   inicio < fin_de inicio chunk_size texto_len - overlap"
  by (simp add: fin_de_def min_def split: if_splits)

text \<open>
  Claim C9. For every text, \<open>dividir_en_chunks\<close> returns whenever \<open>overlap < chunk_size\<close>:
  an iteration that does not stop at the end of the text (\<open>fin < texto_len\<close>) moves
  \<open>inicio\<close> to \<open>fin - overlap\<close>, which is strictly greater than \<open>inicio\<close>.
\<close>

theorem dividir_en_chunks_termina:
  "overlap < chunk_size \<Longrightarrow>
   (\<exists>chunks. dividir_en_chunks texto chunk_size overlap = Some chunks) \<and>
   (\<forall>inicio. fin_de inicio chunk_size (int (length texto)) < int (length texto) \<longrightarrow>
      inicio < fin_de inicio chunk_size (int (length texto)) - overlap)"
  unfolding dividir_en_chunks_def
  using bucle_chunks_termina[of overlap chunk_size texto 0 "[]"]
  by (simp add: avance_estricto)

theorem dividir_en_chunks_termina_witness:
  "(1::int) < 4 \<and> (\<exists>chunks. dividir_en_chunks ''abcdef'' 4 1 = Some chunks)"
  using dividir_en_chunks_termina[of 1 4 "''abcdef''"] by simp

subsection \<open>No validation of the configuration\<close>

lemma bucle_chunks_no_retorna_aux:
  assumes "bucle_chunks texto chunk_size overlap inicio chunks = Some ys"
  shows "\<not> (chunk_size \<le> overlap \<and> chunk_size < int (length texto) \<and> inicio \<le> 0 \<and> texto \<noteq> [])"
proof (rule bucle_chunks.raw_induct[where P = "\<lambda>t cs ov i ch r.
         \<not> (cs \<le> ov \<and> cs < int (length t) \<and> i \<le> 0 \<and> t \<noteq> [])", OF _ assms])
  fix f t cs ov i ch r
  assume ih: "\<And>t cs ov i ch r. f t cs ov i ch = Some r \<Longrightarrow>
                \<not> (cs \<le> ov \<and> cs < int (length t) \<and> i \<le> 0 \<and> t \<noteq> [])"
    and paso: "(if i < int (length t) then
        (let fin = fin_de i cs (int (length t));
             chunks' = agregar_chunk (py_slice t i fin) ch
         in if fin \<ge> int (length t) then Some chunks'
            else f t cs ov (fin - ov) chunks')
      else Some ch) = Some r"
  show "\<not> (cs \<le> ov \<and> cs < int (length t) \<and> i \<le> 0 \<and> t \<noteq> [])"
  proof
    assume h: "cs \<le> ov \<and> cs < int (length t) \<and> i \<le> 0 \<and> t \<noteq> []"
    let ?fin = "fin_de i cs (int (length t))"
    from h have lt: "i < int (length t)" by (cases t) auto
    from h have fin: "?fin < int (length t)" "?fin - ov \<le> 0"
      by (auto simp: fin_de_def min_def)
    from paso lt fin(1) have "f t cs ov (?fin - ov)
        (agregar_chunk (py_slice t i ?fin) ch) = Some r"
      by (simp add: Let_def)
    from ih[OF this] h fin(2) show False by simp
  qed
qed

lemma bucle_chunks_no_retorna:
  "chunk_size \<le> overlap \<Longrightarrow> chunk_size < int (length texto) \<Longrightarrow> inicio \<le> 0 \<Longrightarrow>
   texto \<noteq> [] \<Longrightarrow> bucle_chunks texto chunk_size overlap inicio chunks = None"
  using bucle_chunks_no_retorna_aux[of texto chunk_size overlap inicio chunks]
  by (cases "bucle_chunks texto chunk_size overlap inicio chunks") auto

text \<open>
  Claim C2, as stated, fails: with \<open>chunk_size = overlap = 2\<close> and a text of three
  characters the call neither reports an error nor returns.
\<close>

theorem dividir_en_chunks_no_falla_rapido: "dividir_en_chunks ''abc'' 2 2 = None"
  unfolding dividir_en_chunks_def by (rule bucle_chunks_no_retorna) simp_all

text \<open>
  Claim C2, amended. \<open>dividir_en_chunks\<close> checks nothing about its configuration: with
  \<open>chunk_size \<le> overlap\<close> it reports no error; it returns after a single slice when the
  text has at most \<open>chunk_size\<close> characters (the empty list for the empty text), and never
  returns when the text is longer.
\<close>

theorem dividir_en_chunks_sin_validacion:
  "chunk_size \<le> overlap \<Longrightarrow>
   dividir_en_chunks texto chunk_size overlap =
     (if texto = [] then Some []
      else if int (length texto) \<le> chunk_size then Some (agregar_chunk texto [])
      else None)"
proof (cases "texto = []")
  case True
  then show ?thesis unfolding dividir_en_chunks_def by (subst bucle_chunks.simps) simp
next
  case ne: False
  assume le: "chunk_size \<le> overlap"
  show ?thesis
  proof (cases "int (length texto) \<le> chunk_size")
    case True
    with ne show ?thesis unfolding dividir_en_chunks_def
      by (subst bucle_chunks.simps) (simp add: Let_def fin_de_def py_slice_todo)
  next
    case False
    with ne le show ?thesis unfolding dividir_en_chunks_def
      by (simp add: bucle_chunks_no_retorna)
  qed
qed

theorem dividir_en_chunks_sin_validacion_witness:
  "(5::int) \<le> 7 \<and> dividir_en_chunks ''abcdefgh'' 5 7 = None"
  using dividir_en_chunks_sin_validacion[of 5 7 "''abcdefgh''"] by simp

subsection \<open>Number of chunks with the default configuration\<close>












section \<open>Properties of the context expander and of the fragment ids\<close>

lemma str_int_1: "str_int 1 = ''1''" by code_simp
lemma str_int_3: "str_int 3 = ''3''" by code_simp

text \<open>
  Claim C8. For a fragment with \<open>chunk = 2\<close> and \<open>total_chunks_in_page = 5\<close>,
  \<open>expandir_con_chunks_adyacentes\<close> with one neighbour on each side returns exactly the ids
  of chunks 1 and 3 of the same document and page; for a fragment with \<open>chunk = 0\<close> whose
  \<open>total_chunks_in_page\<close> is known and greater than 1 it returns only the id of chunk 1.
\<close>

theorem expandir_ejemplo:
  "expandir_con_chunks_adyacentes chunk_id
     \<lparr>source = archivo, page = pagina, chunk = Some 2, total_chunks_in_page = Some 5\<rparr> 1
     = [archivo @ ''_pag'' @ str_int pagina @ ''_chunk1'',
        archivo @ ''_pag'' @ str_int pagina @ ''_chunk3''] \<and>
   (1 < n_chunks \<longrightarrow>
      expandir_con_chunks_adyacentes chunk_id
        \<lparr>source = archivo, page = pagina, chunk = Some 0, total_chunks_in_page = Some n_chunks\<rparr> 1
        = [archivo @ ''_pag'' @ str_int pagina @ ''_chunk1''])"
  by (simp add: expandir_con_chunks_adyacentes_def obtener_chunk_def str_int_1 str_int_3)

theorem expandir_ejemplo_witness:
  "(1::int) < 3 \<and>
   expandir_con_chunks_adyacentes ''spec.pdf_pag0_chunk0''
     \<lparr>source = ''spec.pdf'', page = 0, chunk = Some 0, total_chunks_in_page = Some 3\<rparr> 1
     = [''spec.pdf_pag0_chunk1'']"
proof -
  have "str_int 0 = ''0''" by code_simp
  with expandir_ejemplo[of "''spec.pdf_pag0_chunk0''" "''spec.pdf''" 0 3]
  show ?thesis by simp
qed

lemma concat_map_if:
  "concat (map (\<lambda>i. if P i then [g i] else []) xs) = map g (filter P xs)"
  by (induction xs) simp_all

lemma upto_desde_upt: "[1..int k] = map int [1..<Suc k]"
proof (induction k)
  case 0
  show ?case by simp
next
  case (Suc k)
  have "[1..int (Suc k)] = [1..int k] @ [int (Suc k)]"
    using upto_rec2[of 1 "int (Suc k)"] by simp
  with Suc show ?case by simp
qed

lemma anteriores_indexar:
  "map (\<lambda>i. F (int c - i)) (filter (\<lambda>i. int c - i \<ge> 0) (map int xs))
   = map (\<lambda>j. F (int (c - j))) (filter (\<lambda>j. j \<le> c) xs)"
  by (induction xs) (auto simp: of_nat_diff)

lemma siguientes_indexar:
  "map (\<lambda>i. F (int c + i)) (filter (\<lambda>i. int c + i < int n) (map int xs))
   = map (\<lambda>j. F (int (c + j))) (filter (\<lambda>j. c + j < n) xs)"
  by (induction xs) auto

text \<open>
  Claim C4. For every triple of document, page index and chunk index, the id built when
  the chunk is indexed is, character for character, the id that the semantic search, the
  keyword search and the chat loop build from the metadata stored with that chunk; and the
  ids that the context expander builds from that metadata are the indexing ids of the
  neighbouring chunk indices of the same document and page.
\<close>

theorem id_fragmento_determinista:
  "id_semantico (metadata_indexar archivo i chunk_idx n_chunks) = id_indexar archivo i chunk_idx \<and>
   id_keyword (metadata_indexar archivo i chunk_idx n_chunks) = id_indexar archivo i chunk_idx \<and>
   id_vecino (metadata_indexar archivo i chunk_idx n_chunks) = id_indexar archivo i chunk_idx \<and>
   expandir_con_chunks_adyacentes chunk_id (metadata_indexar archivo i chunk_idx n_chunks) (int k)
     = map (id_indexar archivo i)
         ([chunk_idx - j. j \<leftarrow> [1..<Suc k], j \<le> chunk_idx] @
          [chunk_idx + j. j \<leftarrow> [1..<Suc k], chunk_idx + j < n_chunks])"
proof -
  let ?F = "\<lambda>x. archivo @ ''_pag'' @ str_int (int i) @ ''_chunk'' @ str_int x"
  have ant: "concat (map (\<lambda>j. if int chunk_idx - j \<ge> 0 then [?F (int chunk_idx - j)] else [])
                 [1..int k])
             = map (\<lambda>j. ?F (int (chunk_idx - j))) (filter (\<lambda>j. j \<le> chunk_idx) [1..<Suc k])"
    unfolding concat_map_if upto_desde_upt by (rule anteriores_indexar)
  have sig: "concat (map (\<lambda>j. if int chunk_idx + j < int n_chunks
                               then [?F (int chunk_idx + j)] else []) [1..int k])
             = map (\<lambda>j. ?F (int (chunk_idx + j))) (filter (\<lambda>j. chunk_idx + j < n_chunks) [1..<Suc k])"
    unfolding concat_map_if upto_desde_upt by (rule siguientes_indexar)
  have "expandir_con_chunks_adyacentes chunk_id (metadata_indexar archivo i chunk_idx n_chunks) (int k)
     = map (\<lambda>j. ?F (int (chunk_idx - j))) (filter (\<lambda>j. j \<le> chunk_idx) [1..<Suc k]) @
       map (\<lambda>j. ?F (int (chunk_idx + j))) (filter (\<lambda>j. chunk_idx + j < n_chunks) [1..<Suc k])"
    by (simp only: expandir_con_chunks_adyacentes_def metadata_indexar_def obtener_chunk_def
          Let_def chunk_meta.select_convs option.case ant sig)
  also have "\<dots> = map (id_indexar archivo i)
         ([chunk_idx - j. j \<leftarrow> [1..<Suc k], j \<le> chunk_idx] @
          [chunk_idx + j. j \<leftarrow> [1..<Suc k], chunk_idx + j < n_chunks])"
    by (simp only: concat_map_if map_append map_map comp_def id_indexar_def)
  finally show ?thesis
    by (simp add: id_semantico_def id_keyword_def id_vecino_def id_indexar_def
          metadata_indexar_def obtener_chunk_def)
qed

theorem id_fragmento_determinista_witness:
  "id_semantico (metadata_indexar ''spec.pdf'' 0 1 3) = ''spec.pdf_pag0_chunk1'' \<and>
   expandir_con_chunks_adyacentes [] (metadata_indexar ''spec.pdf'' 0 1 3) (int 1)
     = [''spec.pdf_pag0_chunk0'', ''spec.pdf_pag0_chunk2'']"
proof -
  have "id_indexar ''spec.pdf'' 0 0 = ''spec.pdf_pag0_chunk0''"
       "id_indexar ''spec.pdf'' 0 (Suc 0) = ''spec.pdf_pag0_chunk1''"
       "id_indexar ''spec.pdf'' 0 (Suc (Suc 0)) = ''spec.pdf_pag0_chunk2''" by code_simp+
  with id_fragmento_determinista[of "''spec.pdf''" 0 1 3 "[]" 1]
  show ?thesis by simp
qed

section \<open>Properties of the keyword extractor and of the keyword search\<close>

text \<open>
  Claim C6, as stated, fails: the token \<open>Hello\<close> is kept with its capital letter (next to
  its lower-case form, which it yields as a technical term), so not every keyword is a
  lower-case string.
\<close>

theorem extraer_keywords_no_minusculas:
  "extraer_keywords ''Hello'' = [''Hello'', ''hello''] \<and> lower ''Hello'' \<noteq> ''Hello''"
  by code_simp

text \<open>
  Claim C6, amended. For every input text the output of \<open>extraer_keywords\<close> has no
  duplicates, and its elements are exactly: the punctuation-stripped tokens that pass the
  length and stopword filter, in their original case; the lower-cased punctuation-stripped
  technical terms; and, for each of these keywords whose lower-case form is a key of
  \<open>TERMINOS_EXPANSION\<close>, the synonyms as the table writes them (\<open>QKV\<close> among them).
\<close>

theorem extraer_keywords_contenido:
  "distinct (extraer_keywords texto) \<and>
   set (extraer_keywords texto) =
     (set (palabras_filtradas texto) \<union> lower ` set (terminos_tecnicos_de texto)) \<union>
     (\<Union>kw \<in> set (palabras_filtradas texto) \<union> lower ` set (terminos_tecnicos_de texto).
        set (expansion_de kw))"
  by (auto simp: extraer_keywords_def Let_def)

theorem extraer_keywords_contenido_witness:
  "''QKV'' \<in> set (extraer_keywords ''attention'')"
proof -
  have a: "''attention'' \<in> set (palabras_filtradas ''attention'')" by code_simp
  have b: "''QKV'' \<in> set (expansion_de ''attention'')" by code_simp
  from extraer_keywords_contenido[of "''attention''"] a b show ?thesis by blast
qed

text \<open>
  Claim C10. For every question from which \<open>extraer_keywords\<close> yields no keyword,
  \<open>busqueda_por_keywords\<close> returns the empty list of results and sends no query to the
  store.
\<close>

theorem busqueda_por_keywords_sin_keywords:
  "extraer_keywords pregunta = [] \<Longrightarrow>
   busqueda_por_keywords env pregunta n_results = ([], [])"
  by (simp add: busqueda_por_keywords_def)

theorem busqueda_por_keywords_sin_keywords_witness:
  "extraer_keywords ''el la'' = [] \<and>
   busqueda_por_keywords entorno_keyword ''el la'' N_RESULTADOS_KEYWORD = ([], [])"
proof -
  have a: "extraer_keywords ''el la'' = []" by code_simp
  from a busqueda_por_keywords_sin_keywords[OF a, of entorno_keyword N_RESULTADOS_KEYWORD]
  show ?thesis by simp
qed

section \<open>Properties of the score accumulation and of the fusion\<close>

lemma map_of_modificar:
  "map_of (modificar k g t) k' = (if k' = k then map_option g (map_of t k) else map_of t k')"
  by (induction t) (auto simp: modificar_def)

lemma tiene_map_of: "tiene k t \<longleftrightarrow> map_of t k \<noteq> None"
  by (simp add: tiene_def map_of_eq_None_iff)

lemma map_of_agregar:
  "\<not> tiene k t \<Longrightarrow> map_of (t @ [(k, v)]) k' = (if k' = k then Some v else map_of t k')"
  by (auto simp: tiene_map_of map_add_def split: option.splits)

lemma sem_de_registrar:
  "sem_de (registrar_semantico q_idx idx h t) cid =
     sem_de t cid + (if id_semantico (snd (snd h)) = cid then 1 / (real idx + 60) else 0)"
proof (cases h)
  case (fields d dst m)
  show ?thesis
  proof (cases "tiene (id_semantico m) t")
    case True
    then obtain f where "map_of t (id_semantico m) = Some f"
      by (auto simp: tiene_map_of)
    with True fields show ?thesis
      by (auto simp: registrar_semantico_def sem_de_def map_of_modificar Let_def)
  next
    case False
    then have "map_of t (id_semantico m) = None" by (simp add: tiene_map_of)
    with False fields show ?thesis
      by (auto simp: registrar_semantico_def sem_de_def map_of_modificar map_add_def Let_def
          split: option.splits)
  qed
qed

lemma sem_de_variante:
  "sem_de (fold (\<lambda>(idx, h). registrar_semantico q_idx idx h) (enumerate n hs) t) cid =
     sem_de t cid +
     sum_list (map (\<lambda>(r, h). if id_semantico (snd (snd h)) = cid then 1 / (real r + 60) else 0)
                   (enumerate n hs))"
  by (induction hs arbitrary: n t) (simp_all add: sem_de_registrar)

lemma sem_de_variantes:
  "sem_de (fold (\<lambda>(q_idx, query).
             fold (\<lambda>(idx, h). registrar_semantico q_idx idx h) (enumerate 1 (consulta query)))
          (enumerate m queries) t) cid =
     sem_de t cid +
     (\<Sum>query\<leftarrow>queries.
        sum_list (map (\<lambda>(r, h). if id_semantico (snd (snd h)) = cid then 1 / (real r + 60) else 0)
                      (enumerate 1 (consulta query))))"
  by (induction queries arbitrary: m t) (simp_all add: sem_de_variante)

lemma tiene_modificar: "tiene k' (modificar k g t) \<longleftrightarrow> tiene k' t"
  by (induction t) (auto simp: modificar_def tiene_def)

lemma tiene_agregar: "tiene k' (t @ [(k, v)]) \<longleftrightarrow> tiene k' t \<or> k' = k"
  by (auto simp: tiene_def)

lemma tiene_registrar:
  "tiene cid (registrar_semantico q_idx idx h t) \<longleftrightarrow> tiene cid t \<or> id_semantico (snd (snd h)) = cid"
  by (cases h) (auto simp: registrar_semantico_def Let_def tiene_modificar tiene_agregar)

lemma tiene_vacia: "tiene cid [] \<longleftrightarrow> False"
  by (simp add: tiene_def)

lemma sem_de_vacia: "sem_de [] cid = 0"
  by (simp add: sem_de_def)

lemma tiene_variante:
  "tiene cid (fold (\<lambda>(idx, h). registrar_semantico q_idx idx h) (enumerate n hs) t) \<longleftrightarrow>
     tiene cid t \<or> list_ex (\<lambda>h. id_semantico (snd (snd h)) = cid) hs"
  by (induction hs arbitrary: n t) (auto simp: tiene_registrar)

lemma tiene_variantes:
  "tiene cid (fold (\<lambda>(q_idx, query).
             fold (\<lambda>(idx, h). registrar_semantico q_idx idx h) (enumerate 1 (consulta query)))
          (enumerate m queries) t) \<longleftrightarrow>
     tiene cid t \<or> list_ex (\<lambda>query. list_ex (\<lambda>h. id_semantico (snd (snd h)) = cid) (consulta query)) queries"
  by (induction queries arbitrary: m t) (auto simp: tiene_variante)

text \<open>
  Claim C5. A fragment is in the table of semantic results exactly when some variant's
  result list contains it, and its \<open>score_semantic\<close> is then the sum, over all variants and
  over every 1-based rank \<open>r\<close> at which the fragment occurs in the variant's result list, of
  \<open>1 / (r + 60)\<close>: each occurrence contributes exactly that much, and the contributions
  of several variants add up.
\<close>

theorem score_semantic_rrf:
  "(tiene cid (busqueda_semantica consulta queries) \<longleftrightarrow>
      list_ex (\<lambda>query. list_ex (\<lambda>h. id_semantico (snd (snd h)) = cid) (consulta query)) queries) \<and>
   (map_of (busqueda_semantica consulta queries) cid = Some f \<longrightarrow>
      score_semantic f =
        (\<Sum>query\<leftarrow>queries.
           sum_list (map (\<lambda>(r, h). if id_semantico (snd (snd h)) = cid
                                    then 1 / (real r + 60) else 0)
                         (enumerate 1 (consulta query)))))"
proof -
  have "sem_de (busqueda_semantica consulta queries) cid =
        (\<Sum>query\<leftarrow>queries.
           sum_list (map (\<lambda>(r, h). if id_semantico (snd (snd h)) = cid
                                    then 1 / (real r + 60) else 0)
                         (enumerate 1 (consulta query))))"
    unfolding busqueda_semantica_def by (simp only: sem_de_variantes sem_de_vacia add_0)
  moreover have "tiene cid (busqueda_semantica consulta queries) \<longleftrightarrow>
      list_ex (\<lambda>query. list_ex (\<lambda>h. id_semantico (snd (snd h)) = cid) (consulta query)) queries"
    unfolding busqueda_semantica_def by (simp only: tiene_variantes tiene_vacia simp_thms)
  ultimately show ?thesis by (auto simp: sem_de_def)
qed

theorem score_semantic_rrf_witness:
  "\<exists>f. map_of (busqueda_semantica (consulta_semantica entorno_semantico) [''a'', ''b''])
          ''spec.pdf_pag0_chunk1'' = Some f \<and> score_semantic f = 2 / 61"
proof -
  let ?t = "busqueda_semantica (consulta_semantica entorno_semantico) [''a'', ''b'']"
  let ?cid = "''spec.pdf_pag0_chunk1''"
  have i: "id_semantico meta_ejemplo = ?cid" by code_simp
  have c: "consulta_semantica entorno_semantico = (\<lambda>_. [(''texto'', 1 / 2, meta_ejemplo)])"
    by (simp add: entorno_semantico_def entorno_vacio_def)
  have "tiene ?cid ?t"
    using score_semantic_rrf[of ?cid "consulta_semantica entorno_semantico" "[''a'', ''b'']"]
    by (simp add: c i)
  then obtain f where f: "map_of ?t ?cid = Some f" by (auto simp: tiene_map_of)
  with score_semantic_rrf[of ?cid "consulta_semantica entorno_semantico" "[''a'', ''b'']" f]
  have "score_semantic f = 2 / 61" by (simp add: c i)
  with f show ?thesis by blast
qed

lemma map_of_calcular:
  "map_of (calcular_score_final t) cid =
     map_option (\<lambda>f. f\<lparr>score_final := Some (puntuacion f)\<rparr>) (map_of t cid)"
  by (induction t) (auto simp: calcular_score_final_def)

lemma fusionar_keywords_snoc:
  "fusionar_keywords (rs @ [r]) t = fusionar_keyword (Suc (length rs)) r (fusionar_keywords rs t)"
  by (simp add: fusionar_keywords_def enumerate_append_eq)

lemma fusionar_exhaustivos_snoc:
  "fusionar_exhaustivos (es @ [e]) t = fusionar_exhaustivo e (fusionar_exhaustivos es t)"
  by (simp add: fusionar_exhaustivos_def)

lemma map_of_fusionar_keyword:
  assumes "map_of t cid = Some f"
  shows "\<exists>f'. map_of (fusionar_keyword idx r t) cid = Some f' \<and>
           score_semantic f' = score_semantic f \<and>
           score_keyword f' =
             score_keyword f + (if cid = kw_id r then 1 / (real idx + 60) else 0)"
proof (cases "tiene (kw_id r) t")
  case True
  with assms show ?thesis
    by (auto simp: fusionar_keyword_def Let_def map_of_modificar)
next
  case False
  with assms have "cid \<noteq> kw_id r" by (auto simp: tiene_map_of)
  with False assms show ?thesis
    by (auto simp: fusionar_keyword_def Let_def map_add_def split: option.splits)
qed

lemma map_of_fusionar_exhaustivo:
  assumes "map_of t cid = Some f"
  shows "\<exists>f'. map_of (fusionar_exhaustivo e t) cid = Some f' \<and>
           score_semantic f' = score_semantic f \<and>
           score_keyword f' =
             score_keyword f + (if cid = ex_id e then (5 / 10) * real (num_matches e) else 0)"
proof (cases "tiene (ex_id e) t")
  case True
  with assms show ?thesis
    by (auto simp: fusionar_exhaustivo_def Let_def map_of_modificar)
next
  case False
  with assms have "cid \<noteq> ex_id e" by (auto simp: tiene_map_of)
  with False assms show ?thesis
    by (auto simp: fusionar_exhaustivo_def Let_def map_add_def split: option.splits)
qed

lemma leer_calculado:
  "leer_score_final (f\<lparr>score_final := Some (puntuacion f)\<rparr>) = puntuacion f"
  by (simp add: leer_score_final_def)

text \<open>
  Claim C7. For every table of fused fragments: one more keyword-search hit, at the next
  1-based rank \<open>r\<close>, raises the \<open>score_final\<close> computed for the hit's fragment by
  \<open>0.4 * (1 / (r + 60))\<close> and leaves that of every other fragment unchanged, so that no
  \<open>score_final\<close> decreases; one more exhaustive-scan match raises the \<open>score_keyword\<close>
  of its fragment by 0.5 times the number of matches and leaves the others unchanged, so
  that no \<open>score_keyword\<close> decreases.
\<close>

theorem fusion_monotona:
  "(map_of (calcular_score_final (fusionar_keywords rs t)) cid = Some f \<longrightarrow>
      (\<exists>f'. map_of (calcular_score_final (fusionar_keywords (rs @ [r]) t)) cid = Some f' \<and>
            leer_score_final f' =
              leer_score_final f +
              (4 / 10) * (if cid = kw_id r then 1 / (real (Suc (length rs)) + 60) else 0) \<and>
            leer_score_final f \<le> leer_score_final f')) \<and>
   (map_of (fusionar_exhaustivos es t) cid = Some g \<longrightarrow>
      (\<exists>g'. map_of (fusionar_exhaustivos (es @ [e]) t) cid = Some g' \<and>
            score_keyword g' =
              score_keyword g + (if cid = ex_id e then (5 / 10) * real (num_matches e) else 0) \<and>
            score_keyword g \<le> score_keyword g'))"
proof (intro conjI impI)
  assume a: "map_of (calcular_score_final (fusionar_keywords rs t)) cid = Some f"
  then obtain f0 where f0: "map_of (fusionar_keywords rs t) cid = Some f0"
    and f: "f = f0\<lparr>score_final := Some (puntuacion f0)\<rparr>"
    by (auto simp: map_of_calcular)
  from map_of_fusionar_keyword[OF f0, of "Suc (length rs)" r]
  obtain f1 where f1: "map_of (fusionar_keyword (Suc (length rs)) r (fusionar_keywords rs t)) cid
                        = Some f1"
    and s: "score_semantic f1 = score_semantic f0"
    and k: "score_keyword f1 =
             score_keyword f0 + (if cid = kw_id r then 1 / (real (Suc (length rs)) + 60) else 0)"
    by blast
  let ?f' = "f1\<lparr>score_final := Some (puntuacion f1)\<rparr>"
  have m: "map_of (calcular_score_final (fusionar_keywords (rs @ [r]) t)) cid = Some ?f'"
    by (simp add: map_of_calcular fusionar_keywords_snoc f1)
  have e: "leer_score_final ?f' = leer_score_final f +
              (4 / 10) * (if cid = kw_id r then 1 / (real (Suc (length rs)) + 60) else 0)"
  proof -
    define d where "d = (if cid = kw_id r then 1 / (real (Suc (length rs)) + 60) else 0)"
    have "score_keyword f1 = score_keyword f0 + d" using k by (simp add: d_def)
    then have "puntuacion f1 = puntuacion f0 + (4 / 10) * d"
      by (simp add: puntuacion_def s algebra_simps)
    then show ?thesis unfolding f leer_calculado d_def by simp
  qed
  have "0 \<le> (4 / 10) * (if cid = kw_id r then 1 / (real (Suc (length rs)) + 60) else 0)"
    by (simp del: of_nat_Suc)
  with e have "leer_score_final f \<le> leer_score_final ?f'" by linarith
  with m e show "\<exists>f'. map_of (calcular_score_final (fusionar_keywords (rs @ [r]) t)) cid = Some f' \<and>
            leer_score_final f' =
              leer_score_final f +
              (4 / 10) * (if cid = kw_id r then 1 / (real (Suc (length rs)) + 60) else 0) \<and>
            leer_score_final f \<le> leer_score_final f'" by blast
next
  assume a: "map_of (fusionar_exhaustivos es t) cid = Some g"
  from map_of_fusionar_exhaustivo[OF a, of e]
  show "\<exists>g'. map_of (fusionar_exhaustivos (es @ [e]) t) cid = Some g' \<and>
            score_keyword g' =
              score_keyword g + (if cid = ex_id e then (5 / 10) * real (num_matches e) else 0) \<and>
            score_keyword g \<le> score_keyword g'"
    by (auto simp: fusionar_exhaustivos_snoc)
qed

theorem fusion_monotona_witness:
  "\<exists>f f' g g'.
     map_of (calcular_score_final (fusionar_keywords [hit_keyword_ejemplo] []))
        ''spec.pdf_pag0_chunk1'' = Some f \<and>
     map_of (calcular_score_final (fusionar_keywords ([hit_keyword_ejemplo] @ [hit_keyword_ejemplo]) []))
        ''spec.pdf_pag0_chunk1'' = Some f' \<and>
     leer_score_final f \<le> leer_score_final f' \<and>
     map_of (fusionar_exhaustivos [hit_exhaustivo_ejemplo] []) ''spec.pdf_pag0_chunk1'' = Some g \<and>
     map_of (fusionar_exhaustivos ([hit_exhaustivo_ejemplo] @ [hit_exhaustivo_ejemplo]) [])
        ''spec.pdf_pag0_chunk1'' = Some g' \<and>
     score_keyword g' = score_keyword g + 1"
proof -
  let ?cid = "''spec.pdf_pag0_chunk1''"
  obtain f where f: "map_of (calcular_score_final (fusionar_keywords [hit_keyword_ejemplo] []))
        ?cid = Some f"
    by (simp add: map_of_calcular fusionar_keywords_def fusionar_keyword_def tiene_def
        hit_keyword_ejemplo_def Let_def)
  obtain g where g: "map_of (fusionar_exhaustivos [hit_exhaustivo_ejemplo] []) ?cid = Some g"
    by (simp add: fusionar_exhaustivos_def fusionar_exhaustivo_def tiene_def
        hit_exhaustivo_ejemplo_def Let_def)
  have i: "ex_id hit_exhaustivo_ejemplo = ?cid" "num_matches hit_exhaustivo_ejemplo = 2"
    by (simp_all add: hit_exhaustivo_ejemplo_def)
  from fusion_monotona[of "[hit_keyword_ejemplo]" "[]" ?cid f hit_keyword_ejemplo
      "[hit_exhaustivo_ejemplo]" g hit_exhaustivo_ejemplo] f g i
  show ?thesis by auto
qed

section \<open>Properties of the relevance gate\<close>















end
